theory Spec2Isabelle
  imports Main
begin

section \<open>The account controller of openbb_core (app/static/account.py)\<close>

text \<open>
  The class \<open>Account\<close> offers four operations, \<open>login\<close>, \<open>save\<close>, \<open>refresh\<close> and
  \<open>logout\<close>, each passed through the decorator \<open>_log_account_command\<close>. They read and
  replace the current user settings of the command runner, read, write and delete one
  session file, and call three collaborators whose code is not part of the two source
  files: \<open>HubService\<close> (the remote hub), \<open>UserService\<close> (the local settings store) and
  \<open>LoggingService\<close>. The model passes the state of the process and of the file system
  explicitly, returns every raised exception as a value, and takes the collaborators as
  a record of functions.
\<close>

subsection \<open>Exceptions\<close>

text \<open>
  \<open>OpenBBError\<close> is built from a message (\<open>OpenBBError("Session not found.")\<close>) or from
  another exception (\<open>raise OpenBBError(e) from e\<close>). \<open>Other\<close> stands for every other
  class deriving from \<open>Exception\<close>, by class name. The model covers exceptions that
  derive from \<open>Exception\<close>, the ones the decorator's \<open>except Exception\<close> catches.
\<close>

datatype exn = OpenBBError original | Other string
and original = Msg string | Cause exn

subsection \<open>Data\<close>

text \<open>What \<open>json.load\<close> returns and \<open>json.dump\<close> takes; numbers by their literal.\<close>

datatype json = JNull | JBool bool | JNumber string | JString string
  | JArray "json list" | JObject "(string \<times> json) list"

type_synonym fields = "(string \<times> string) list"

text \<open>
  \<open>UserSettings\<close> as far as the account code and the specification look at it: the
  identity \<open>id\<close>, the profile with its optional hub session, credentials and
  preferences. The hub session \<open>'h\<close> is opaque. The state is Connected when the
  profile holds a session and Anonymous otherwise: a \<open>HubSession\<close> object defines
  neither \<open>__bool__\<close> nor \<open>__len__\<close>, so \<open>not hub_session\<close> is true exactly for
  \<open>None\<close>.
\<close>

record 'h Profile =
  hub_session :: "'h option"

record 'h UserSettings =
  id' :: string
  profile :: "'h Profile"
  credentials :: fields
  preferences :: fields

text \<open>
  The directory \<open>openbb_directory\<close> and the file \<open>SESSION_FILE\<close> in it: the parent of
  the directory is missing, or the directory is missing, or the directory is there and
  the session file is absent (\<open>None\<close>) or has some content.
\<close>

datatype fs = No_parent | No_directory | Directory "string option"

fun session_file :: "fs \<Rightarrow> string option" where
  "session_file (Directory f) = f"
| "session_file _ = None"

text \<open>
  What the operations do to the outside, in order: the calls on a hub client, the
  accesses to the session file, and the records handed to the logging service
  (settings at that moment, route, \<open>kwargs\<close>, \<open>exc_info()\<close>).
\<close>

datatype 'h event =
    HubService_init "'h option"
  | Hub_connect "string option" "string option" "string option"
  | Hub_pull "'h option"
  | Hub_push "'h option" "'h UserSettings"
  | Hub_disconnect "'h option"
  | File_exists
  | File_read
  | File_open_w
  | File_write string
  | File_unlink
  | Log "'h UserSettings" string fields "exn option"

fun is_remote :: "'h event \<Rightarrow> bool" where
  "is_remote (HubService_init _) = True"
| "is_remote (Hub_connect _ _ _) = True"
| "is_remote (Hub_pull _) = True"
| "is_remote (Hub_push _ _) = True"
| "is_remote (Hub_disconnect _) = True"
| "is_remote _ = False"

fun is_file_read :: "'h event \<Rightarrow> bool" where
  "is_file_read File_exists = True"
| "is_file_read File_read = True"
| "is_file_read _ = False"

fun is_log :: "'h event \<Rightarrow> bool" where
  "is_log (Log _ _ _ _) = True"
| "is_log _ = False"

text \<open>
  The state: \<open>user_settings\<close> is \<open>base_app._command_runner.user_settings\<close>, \<open>store\<close> the
  state of the local settings store behind \<open>UserService\<close>, \<open>fs\<close> the session directory,
  \<open>fs_seen\<close> every state the session directory was put in, in order (what a reader of the
  file could have met), \<open>trace\<close> the events so far.
\<close>

record ('h, 's) world =
  user_settings :: "'h UserSettings"
  store :: 's
  fs :: fs
  fs_seen :: "fs list"
  trace :: "'h event list"

definition emit :: "'h event \<Rightarrow> ('h, 's) world \<Rightarrow> ('h, 's) world" where
  "emit e w = w\<lparr>trace := trace w @ [e]\<rparr>"

definition set_fs :: "fs \<Rightarrow> ('h, 's) world \<Rightarrow> ('h, 's) world" where
  "set_fs f w = w\<lparr>fs := f, fs_seen := fs_seen w @ [f]\<rparr>"

subsection \<open>Collaborators\<close>

text \<open>
  The methods of \<open>HubService\<close> and \<open>UserService\<close>, the parser and printer of the
  \<open>json\<close> module and the \<open>HubSession\<close> model, none of them in the source files. Each
  may raise (\<open>Inl\<close>). A hub client is represented by its \<open>session\<close> attribute:
  \<open>hub_connect\<close> gives the session of the client after \<open>connect\<close> returned;
  \<open>validate\<close> is the validation of \<open>HubSession(**session_dict)\<close> on the keyword
  arguments, \<open>None\<close> when it rejects them.
\<close>

record ('h, 's) collab =
  hub_connect :: "string option \<Rightarrow> string option \<Rightarrow> string option \<Rightarrow> exn + 'h option"
  hub_pull :: "'h option \<Rightarrow> exn + 'h UserSettings"
  hub_push :: "'h option \<Rightarrow> 'h UserSettings \<Rightarrow> exn + unit"
  hub_disconnect :: "'h option \<Rightarrow> exn + unit"
  update_default :: "'s \<Rightarrow> 'h UserSettings \<Rightarrow> exn + 'h UserSettings"
  read_default_user_settings :: "'s \<Rightarrow> exn + 'h UserSettings"
  write_default_user_settings :: "'h UserSettings \<Rightarrow> 's \<Rightarrow> exn + 's"
  json_load :: "string \<Rightarrow> json option"
  validate :: "(string \<times> json) list \<Rightarrow> 'h option"
  model_dump :: "'h \<Rightarrow> json"
  json_dump :: "json \<Rightarrow> string"

type_synonym ('h, 's, 'r) op = "('h, 's) world \<Rightarrow> (exn + 'r) \<times> ('h, 's) world"

subsection \<open>The decorator\<close>

text \<open>
  Modelled from the spec: \<open>LoggingService.log\<close>, whose code is missing, is the audit
  boundary \<open>record(route, args, outcome, errorInfo)\<close>; it records and returns.
\<close>

definition ls_log :: "string \<Rightarrow> fields \<Rightarrow> exn option \<Rightarrow> ('h, 's) world \<Rightarrow> ('h, 's) world" where
  "ls_log route kwargs exec_info w = emit (Log (user_settings w) route kwargs exec_info) w"

text \<open>
  \<open>_log_account_command\<close>: the \<open>except\<close> clause replaces an exception \<open>e\<close> of the
  function by \<open>OpenBBError(e)\<close>; the \<open>finally\<close> clause then logs, with the settings
  current at that moment, empty \<open>kwargs\<close> and \<open>exc_info()\<close>, which is the exception
  in flight (none after a normal return); only then the result or the exception
  reaches the caller.
\<close>

definition log_account_command :: "string \<Rightarrow> ('h, 's, 'r) op \<Rightarrow> ('h, 's, 'r) op" where
  "log_account_command name func w =
     (case func w of
        (Inl e, w1) \<Rightarrow>
          (Inl (OpenBBError (Cause e)),
           ls_log (''/account/'' @ name) [] (Some (OpenBBError (Cause e))) w1)
      | (Inr result, w1) \<Rightarrow>
          (Inr result, ls_log (''/account/'' @ name) [] None w1))"

subsection \<open>Creating the hub client\<close>

text \<open>
  \<open>HubSession(**session_dict)\<close>: a value that is not a mapping cannot be unpacked
  (\<open>TypeError\<close>); keyword arguments the model rejects raise \<open>ValidationError\<close>.
\<close>

definition HubSession_init :: "('h, 's) collab \<Rightarrow> json \<Rightarrow> exn + 'h" where
  "HubSession_init c session_dict =
     (case session_dict of
        JObject kw \<Rightarrow>
          (case validate c kw of
             None \<Rightarrow> Inl (Other ''ValidationError'')
           | Some h \<Rightarrow> Inr h)
      | _ \<Rightarrow> Inl (Other ''TypeError''))"

text \<open>\<open>_create_hub_service\<close>; the result is the client, given by its session.\<close>

definition create_hub_service ::
  "('h, 's) collab \<Rightarrow> string option \<Rightarrow> string option \<Rightarrow> string option \<Rightarrow> ('h, 's, 'h option) op"
where
  "create_hub_service c email password pat w =
     (if email = None \<and> password = None \<and> pat = None then
        (let w1 = emit File_exists w in
         case session_file (fs w1) of
           None \<Rightarrow> (Inl (OpenBBError (Msg ''Session not found.'')), w1)
         | Some content \<Rightarrow>
             (let w2 = emit File_read w1 in
              case json_load c content of
                None \<Rightarrow> (Inl (Other ''JSONDecodeError''), w2)
              | Some session_dict \<Rightarrow>
                  (case HubSession_init c session_dict of
                     Inl e \<Rightarrow> (Inl e, w2)
                   | Inr session \<Rightarrow>
                       (Inr (Some session), emit (HubService_init (Some session)) w2))))
      else
        (let w1 = emit (HubService_init None) w;
             w2 = emit (Hub_connect email password pat) w1 in
         case hub_connect c email password pat of
           Inl e \<Rightarrow> (Inl e, w2)
         | Inr session \<Rightarrow> (Inr session, w2)))"

subsection \<open>The four operations\<close>

text \<open>
  Each operation comes twice: \<open>login_func\<close> is the method as written, the \<open>func\<close>
  the decorator receives, and \<open>login\<close> is the decorated method a caller reaches;
  likewise for \<open>save\<close>, \<open>refresh\<close> and \<open>logout\<close>.
\<close>

text \<open>
  Lines 126 to 132 of \<open>login\<close>, the block under \<open>if remember_me\<close>:
  \<open>mkdir(parents=False, exist_ok=True)\<close> fails when the parent is missing; opening the
  file with mode \<open>"w"\<close> creates it or truncates it to empty; only then the session of
  the client is tested, and the serialisation written.
\<close>

definition write_session_file :: "('h, 's) collab \<Rightarrow> 'h option \<Rightarrow> ('h, 's, unit) op" where
  "write_session_file c session w =
     (case fs w of
        No_parent \<Rightarrow> (Inl (Other ''FileNotFoundError''), w)
      | _ \<Rightarrow>
          (let w1 = (if fs w = No_directory then set_fs (Directory None) w else w);
               w2 = set_fs (Directory (Some [])) (emit File_open_w w1) in
           case session of
             None \<Rightarrow> (Inl (OpenBBError (Msg ''Not connected to hub.'')), w2)
           | Some s \<Rightarrow>
               (let dumped = json_dump c (model_dump c s) in
                (Inr (), set_fs (Directory (Some dumped)) (emit (File_write dumped) w2)))))"

definition return_value :: "bool \<Rightarrow> ('h, 's) world \<Rightarrow> 'h UserSettings option" where
  "return_value return_settings w = (if return_settings then Some (user_settings w) else None)"

definition login_func ::
  "('h, 's) collab \<Rightarrow> string option \<Rightarrow> string option \<Rightarrow> string option \<Rightarrow> bool \<Rightarrow> bool
     \<Rightarrow> ('h, 's, 'h UserSettings option) op"
where
  "login_func c email password pat remember_me return_settings w =
     (case create_hub_service c email password pat w of
        (Inl e, w1) \<Rightarrow> (Inl e, w1)
      | (Inr hs, w1) \<Rightarrow>
          (let w2 = emit (Hub_pull hs) w1 in
           case hub_pull c hs of
             Inl e \<Rightarrow> (Inl e, w2)
           | Inr incoming \<Rightarrow>
               (case update_default c (store w2) incoming of
                  Inl e \<Rightarrow> (Inl e, w2)
                | Inr updated \<Rightarrow>
                    (let w3 = w2\<lparr>user_settings := updated\<rparr> in
                     if remember_me then
                       (case write_session_file c hs w3 of
                          (Inl e, w4) \<Rightarrow> (Inl e, w4)
                        | (Inr _, w4) \<Rightarrow> (Inr (return_value return_settings w4), w4))
                     else (Inr (return_value return_settings w3), w3)))))"

definition login ::
  "('h, 's) collab \<Rightarrow> string option \<Rightarrow> string option \<Rightarrow> string option \<Rightarrow> bool \<Rightarrow> bool
     \<Rightarrow> ('h, 's, 'h UserSettings option) op"
where
  "login c email password pat remember_me return_settings =
     log_account_command ''login'' (login_func c email password pat remember_me return_settings)"

definition save_func :: "('h, 's) collab \<Rightarrow> bool \<Rightarrow> ('h, 's, 'h UserSettings option) op" where
  "save_func c return_settings w =
     (case hub_session (profile (user_settings w)) of
        None \<Rightarrow>
          (case write_default_user_settings c (user_settings w) (store w) of
             Inl e \<Rightarrow> (Inl e, w)
           | Inr st \<Rightarrow> (let w1 = w\<lparr>store := st\<rparr> in (Inr (return_value return_settings w1), w1)))
      | Some session \<Rightarrow>
          (let w1 = emit (HubService_init (Some session)) w;
               w2 = emit (Hub_push (Some session) (user_settings w1)) w1 in
           case hub_push c (Some session) (user_settings w1) of
             Inl e \<Rightarrow> (Inl e, w2)
           | Inr _ \<Rightarrow> (Inr (return_value return_settings w2), w2)))"

definition save :: "('h, 's) collab \<Rightarrow> bool \<Rightarrow> ('h, 's, 'h UserSettings option) op" where
  "save c return_settings = log_account_command ''save'' (save_func c return_settings)"

definition refresh_func :: "('h, 's) collab \<Rightarrow> bool \<Rightarrow> ('h, 's, 'h UserSettings option) op" where
  "refresh_func c return_settings w =
     (case hub_session (profile (user_settings w)) of
        None \<Rightarrow>
          (case read_default_user_settings c (store w) of
             Inl e \<Rightarrow> (Inl e, w)
           | Inr d \<Rightarrow>
               (let w1 = w\<lparr>user_settings := d\<rparr> in (Inr (return_value return_settings w1), w1)))
      | Some session \<Rightarrow>
          (let w1 = emit (HubService_init (Some session)) w;
               w2 = emit (Hub_pull (Some session)) w1 in
           case hub_pull c (Some session) of
             Inl e \<Rightarrow> (Inl e, w2)
           | Inr incoming \<Rightarrow>
               (case update_default c (store w2) incoming of
                  Inl e \<Rightarrow> (Inl e, w2)
                | Inr updated \<Rightarrow>
                    (let updated = updated\<lparr>id' := id' (user_settings w2)\<rparr>;
                         w3 = w2\<lparr>user_settings := updated\<rparr>
                     in (Inr (return_value return_settings w3), w3)))))"

definition refresh :: "('h, 's) collab \<Rightarrow> bool \<Rightarrow> ('h, 's, 'h UserSettings option) op" where
  "refresh c return_settings = log_account_command ''refresh'' (refresh_func c return_settings)"

definition logout_func :: "('h, 's) collab \<Rightarrow> bool \<Rightarrow> ('h, 's, 'h UserSettings option) op" where
  "logout_func c return_settings w =
     (case hub_session (profile (user_settings w)) of
        None \<Rightarrow> (Inl (OpenBBError (Msg ''Not connected to hub.'')), w)
      | Some session \<Rightarrow>
          (let w1 = emit (HubService_init (Some session)) w;
               w2 = emit (Hub_disconnect (Some session)) w1 in
           case hub_disconnect c (Some session) of
             Inl e \<Rightarrow> (Inl e, w2)
           | Inr _ \<Rightarrow>
               (let w3 = emit File_exists w2;
                    w4 = (case session_file (fs w3) of
                            None \<Rightarrow> w3
                          | Some _ \<Rightarrow> set_fs (Directory None) (emit File_unlink w3)) in
                case read_default_user_settings c (store w4) of
                  Inl e \<Rightarrow> (Inl e, w4)
                | Inr d \<Rightarrow>
                    (let w5 = w4\<lparr>user_settings := d\<rparr>
                     in (Inr (return_value return_settings w5), w5)))))"

definition logout :: "('h, 's) collab \<Rightarrow> bool \<Rightarrow> ('h, 's, 'h UserSettings option) op" where
  "logout c return_settings = log_account_command ''logout'' (logout_func c return_settings)"

subsection \<open>Example collaborators\<close>

text \<open>
  Concrete collaborators on which the theorems below are run: a session is its token;
  \<open>connect\<close> takes a token, or an email with a password; \<open>pull\<close> needs a session
  and fails for the token \<open>expired\<close>; the settings store holds one settings object;
  a session file holds the token.
\<close>

definition example_settings :: "string \<Rightarrow> string option \<Rightarrow> string UserSettings" where
  "example_settings i session =
     \<lparr>id' = i, profile = \<lparr>hub_session = session\<rparr>, credentials = [], preferences = []\<rparr>"

definition example_collab :: "(string, string UserSettings) collab" where
  "example_collab =
     \<lparr>hub_connect = (\<lambda>email password pat.
        case pat of
          Some t \<Rightarrow> Inr (Some t)
        | None \<Rightarrow> (if email \<noteq> None \<and> password \<noteq> None then Inr (Some ''S'')
                   else Inl (OpenBBError (Msg ''Please provide credentials.'')))),
      hub_pull = (\<lambda>session.
        case session of
          None \<Rightarrow> Inl (OpenBBError (Msg ''No session found.''))
        | Some t \<Rightarrow> (if t = ''expired'' then Inl (Other ''HTTPException'')
                     else Inr (example_settings ''Y'' (Some t)))),
      hub_push = (\<lambda>session settings. Inr ()),
      hub_disconnect = (\<lambda>session. Inr ()),
      update_default = (\<lambda>st settings. Inr settings),
      read_default_user_settings = (\<lambda>st. Inr st),
      write_default_user_settings = (\<lambda>settings st. Inr settings),
      json_load = (\<lambda>content.
        if content = [] then None else Some (JObject [(''access_token'', JString content)])),
      validate = (\<lambda>kw.
        case kw of
          [(k, JString t)] \<Rightarrow> if k = ''access_token'' \<and> t \<noteq> ''?'' then Some t else None
        | _ \<Rightarrow> None),
      model_dump = (\<lambda>session. JObject [(''access_token'', JString session)]),
      json_dump = (\<lambda>j. case j of JObject [(k, JString t)] \<Rightarrow> t | _ \<Rightarrow> [])\<rparr>"

text \<open>A client whose \<open>connect\<close> returns without a session, and whose \<open>pull\<close> answers.\<close>

definition sessionless_collab :: "(string, string UserSettings) collab" where
  "sessionless_collab =
     example_collab\<lparr>hub_connect := (\<lambda>email password pat. Inr None),
                    hub_pull := (\<lambda>session. Inr (example_settings ''Y'' session))\<rparr>"

text \<open>
  Three variants: an \<open>update_default\<close> that issues a new id, a hub whose
  \<open>disconnect\<close> raises, and a settings store whose defaults carry a session.
\<close>

definition reissuing_collab :: "(string, string UserSettings) collab" where
  "reissuing_collab =
     example_collab\<lparr>update_default := (\<lambda>st settings. Inr (settings\<lparr>id' := ''fresh''\<rparr>))\<rparr>"

definition unreachable_collab :: "(string, string UserSettings) collab" where
  "unreachable_collab =
     example_collab\<lparr>hub_disconnect := (\<lambda>session. Inl (Other ''HTTPException''))\<rparr>"

definition stale_defaults_collab :: "(string, string UserSettings) collab" where
  "stale_defaults_collab =
     example_collab\<lparr>read_default_user_settings :=
       (\<lambda>st. Inr (example_settings ''D'' (Some ''S'')))\<rparr>"

definition example_world :: "string UserSettings \<Rightarrow> fs \<Rightarrow> (string, string UserSettings) world" where
  "example_world settings f =
     \<lparr>user_settings = settings, store = example_settings ''D'' None, fs = f, fs_seen = [],
      trace = []\<rparr>"

section \<open>Properties\<close>

subsection \<open>Auxiliary facts\<close>

lemmas example_defs = example_world_def example_collab_def example_settings_def

lemmas step_defs = emit_def set_fs_def ls_log_def log_account_command_def return_value_def

lemma create_hub_service_frame:
  "user_settings (snd (create_hub_service c email password pat w)) = user_settings w \<and>
   store (snd (create_hub_service c email password pat w)) = store w \<and>
   fs (snd (create_hub_service c email password pat w)) = fs w \<and>
   fs_seen (snd (create_hub_service c email password pat w)) = fs_seen w"
  by (simp add: create_hub_service_def emit_def Let_def split: option.splits sum.splits)

lemma create_hub_service_trace:
  "\<exists>evs. trace (snd (create_hub_service c email password pat w)) = trace w @ evs \<and>
     filter is_log evs = []"
  by (simp add: create_hub_service_def emit_def Let_def split: option.splits sum.splits)

lemma write_session_file_trace:
  "\<exists>evs. trace (snd (write_session_file c session w)) = trace w @ evs \<and> filter is_log evs = []"
  by (simp add: write_session_file_def step_defs Let_def split: option.splits fs.splits)

lemma write_session_file_settings:
  "user_settings (snd (write_session_file c session w)) = user_settings w"
  by (simp add: write_session_file_def step_defs Let_def split: option.splits fs.splits)

lemma login_func_trace:
  "\<exists>evs. trace (snd (login_func c email password pat remember_me return_settings w)) = trace w @ evs \<and>
     filter is_log evs = []"
proof -
  obtain r w1 where cr: "create_hub_service c email password pat w = (r, w1)"
    by (cases "create_hub_service c email password pat w")
  obtain evs1 where t1: "trace w1 = trace w @ evs1" "filter is_log evs1 = []"
    using create_hub_service_trace [of c email password pat w] cr by auto
  show ?thesis
  proof (cases r)
    case (Inl e)
    with cr t1 show ?thesis by (simp add: login_func_def)
  next
    case (Inr hs)
    let ?w3 = "\<lambda>u. (emit (Hub_pull hs) w1)\<lparr>user_settings := u\<rparr>"
    have "\<And>u. \<exists>evs. trace (snd (write_session_file c hs (?w3 u))) = trace (?w3 u) @ evs \<and> filter is_log evs = []"
      by (rule write_session_file_trace)
    then have ws: "\<And>u. \<exists>evs. trace (snd (write_session_file c hs (?w3 u))) = trace w @ evs1 @ [Hub_pull hs] @ evs \<and> filter is_log evs = []"
      using t1 by (simp add: emit_def)
    show ?thesis
    proof (cases "hub_pull c hs")
      case (Inl e)
      with Inr cr t1 show ?thesis by (simp add: login_func_def emit_def Let_def)
    next
      case pull: (Inr incoming)
      show ?thesis
      proof (cases "update_default c (store w1) incoming")
        case (Inl e)
        with pull Inr cr t1 show ?thesis by (simp add: login_func_def emit_def Let_def)
      next
        case upd: (Inr updated)
        show ?thesis
        proof (cases remember_me)
          case False
          with upd pull Inr cr t1 show ?thesis by (simp add: login_func_def emit_def Let_def)
        next
          case True
          obtain evs where e: "trace (snd (write_session_file c hs (?w3 updated))) = trace w @ evs1 @ [Hub_pull hs] @ evs" "filter is_log evs = []"
            using ws [of updated] by blast
          have "trace (snd (login_func c email password pat remember_me return_settings w)) =
                trace (snd (write_session_file c hs (?w3 updated)))"
            using True upd pull Inr cr
            by (simp add: login_func_def emit_def Let_def split: prod.splits sum.splits)
          with e t1 show ?thesis by simp
        qed
      qed
    qed
  qed
qed

lemma save_func_trace:
  "\<exists>evs. trace (snd (save_func c return_settings w)) = trace w @ evs \<and> filter is_log evs = []"
  by (simp add: save_func_def step_defs Let_def split: option.splits sum.splits)

lemma refresh_func_trace:
  "\<exists>evs. trace (snd (refresh_func c return_settings w)) = trace w @ evs \<and> filter is_log evs = []"
  by (simp add: refresh_func_def step_defs Let_def split: option.splits sum.splits)

lemma logout_func_trace:
  "\<exists>evs. trace (snd (logout_func c return_settings w)) = trace w @ evs \<and> filter is_log evs = []"
  by (simp add: logout_func_def step_defs Let_def split: option.splits sum.splits)

lemma log_account_command_audit:
  assumes "\<exists>evs. trace (snd (func w)) = trace w @ evs \<and> filter is_log evs = []"
  shows "\<exists>evs exc. trace (snd (log_account_command name func w)) =
           trace w @ evs @ [Log (user_settings (snd (log_account_command name func w))) (''/account/'' @ name) [] exc] \<and>
         filter is_log evs = [] \<and>
         (case fst (func w) of
            Inl e \<Rightarrow> fst (log_account_command name func w) = Inl (OpenBBError (Cause e)) \<and>
                     exc = Some (OpenBBError (Cause e))
          | Inr v \<Rightarrow> fst (log_account_command name func w) = Inr v \<and> exc = None)"
proof -
  obtain r w1 where f: "func w = (r, w1)" by (cases "func w")
  obtain evs where e: "trace w1 = trace w @ evs" "filter is_log evs = []"
    using assms f by auto
  show ?thesis
    using f e by (cases r) (auto simp: step_defs)
qed

lemma log_account_command_fst:
  "fst (log_account_command name func w) =
     (case fst (func w) of Inl e \<Rightarrow> Inl (OpenBBError (Cause e)) | Inr v \<Rightarrow> Inr v)"
  by (cases "func w") (simp add: log_account_command_def split: sum.splits)

lemma log_account_command_frame:
  "user_settings (snd (log_account_command name func w)) = user_settings (snd (func w))"
  "store (snd (log_account_command name func w)) = store (snd (func w))"
  "fs (snd (log_account_command name func w)) = fs (snd (func w))"
  "fs_seen (snd (log_account_command name func w)) = fs_seen (snd (func w))"
  by (cases "func w"; simp add: step_defs split: sum.splits)+

lemma log_account_command_trace:
  "trace (snd (log_account_command name func w)) =
     trace (snd (func w)) @
       [Log (user_settings (snd (func w))) (''/account/'' @ name) []
          (case fst (func w) of Inl e \<Rightarrow> Some (OpenBBError (Cause e)) | Inr v \<Rightarrow> None)]"
  by (cases "func w") (simp add: step_defs split: sum.splits)

lemma write_session_file_success:
  assumes "fst (write_session_file c session w) = Inr u"
  shows "\<exists>h. session = Some h \<and>
           fs (snd (write_session_file c session w)) = Directory (Some (json_dump c (model_dump c h))) \<and>
           fs_seen (snd (write_session_file c session w)) =
             fs_seen w @ (if fs w = No_directory then [Directory None] else []) @
               [Directory (Some []), Directory (Some (json_dump c (model_dump c h)))]"
  using assms
  by (auto simp: write_session_file_def step_defs Let_def split: option.splits fs.splits)

lemma create_hub_service_settings_free:
  "create_hub_service c email password pat (w\<lparr>user_settings := u\<rparr>) =
     (fst (create_hub_service c email password pat w),
      (snd (create_hub_service c email password pat w))\<lparr>user_settings := u\<rparr>)"
  by (simp add: create_hub_service_def emit_def Let_def split: option.splits sum.splits)

lemma login_installs:
  assumes "create_hub_service c email password pat w = (Inr hs, w1)"
    and "hub_pull c hs = Inr incoming"
    and "update_default c (store w) incoming = Inr updated"
  shows "user_settings (snd (login c email password pat remember_me return_settings w)) = updated"
proof -
  have st: "store w1 = store w"
    using create_hub_service_frame [of c email password pat w] assms(1) by simp
  have "user_settings (snd (login_func c email password pat remember_me return_settings w)) = updated"
    using assms st
      write_session_file_settings [of c hs "(emit (Hub_pull hs) w1)\<lparr>user_settings := updated\<rparr>"]
    by (auto simp: login_func_def emit_def Let_def split: prod.splits sum.splits)
  then show ?thesis
    by (simp add: login_def log_account_command_frame)
qed

lemma write_session_file_no_read:
  "\<exists>evs. trace (snd (write_session_file c session w)) = trace w @ evs \<and>
     filter is_file_read evs = []"
  by (simp add: write_session_file_def step_defs Let_def split: option.splits fs.splits)

subsection \<open>Login without credentials and without a session file\<close>

text \<open>
  C3. When \<open>login\<close> is called with \<open>email\<close>, \<open>password\<close> and \<open>pat\<close> all
  \<open>None\<close> and no session file exists, the caller receives the wrapped error
  \<open>OpenBBError("Session not found.")\<close>, whatever the other arguments and the
  collaborators are. The only events of the call are the existence test on the file and
  the log record; no hub client is created and nothing is called on one.
\<close>

theorem login_without_session_file:
  assumes "session_file (fs w) = None"
  shows "fst (login c None None None remember_me return_settings w) =
           Inl (OpenBBError (Cause (OpenBBError (Msg ''Session not found.'')))) \<and>
         trace (snd (login c None None None remember_me return_settings w)) =
           trace w @ [File_exists,
             Log (user_settings w) ''/account/login'' []
               (Some (OpenBBError (Cause (OpenBBError (Msg ''Session not found.'')))))] \<and>
         filter is_remote (trace (snd (login c None None None remember_me return_settings w))) =
           filter is_remote (trace w)"
  using assms
  by (simp add: login_def login_func_def create_hub_service_def step_defs Let_def)

theorem login_without_session_file_witness:
  "session_file (fs (example_world (example_settings ''X'' None) (Directory None))) = None \<and>
   fst (login example_collab None None None True True
          (example_world (example_settings ''X'' None) (Directory None))) =
     Inl (OpenBBError (Cause (OpenBBError (Msg ''Session not found.'')))) \<and>
   trace (snd (login example_collab None None None True True
          (example_world (example_settings ''X'' None) (Directory None)))) =
     [File_exists,
      Log (example_settings ''X'' None) ''/account/login'' []
        (Some (OpenBBError (Cause (OpenBBError (Msg ''Session not found.'')))))]"
proof -
  have h: "session_file (fs (example_world (example_settings ''X'' None) (Directory None))) = None"
    by (simp add: example_world_def)
  show ?thesis
    using h login_without_session_file [OF h, of example_collab True True]
    by (simp add: example_world_def)
qed

subsection \<open>The contract at the operation boundary\<close>

text \<open>
  C4. For each of \<open>login\<close>, \<open>save\<close>, \<open>refresh\<close> and \<open>logout\<close>, whether the
  decorated function returns or raises: the events of the call end with a log record
  whose route names the operation and whose \<open>kwargs\<close> are empty, and it is the only
  log record of the call. When the function raises \<open>e\<close>, the caller receives
  \<open>OpenBBError(e)\<close>, the same value the record carries as \<open>exc_info\<close>, together with
  the state in which the record is already written; when the function returns \<open>v\<close>,
  the caller receives \<open>v\<close> and the record carries no exception.
\<close>

theorem account_operation_audit:
  assumes "(name, func, wrapped) \<in>
     {(''login'', login_func c email password pat remember_me return_settings,
         login c email password pat remember_me return_settings),
      (''save'', save_func c return_settings, save c return_settings),
      (''refresh'', refresh_func c return_settings, refresh c return_settings),
      (''logout'', logout_func c return_settings, logout c return_settings)}"
  shows "\<exists>evs exc. trace (snd (wrapped w)) =
           trace w @ evs @ [Log (user_settings (snd (wrapped w))) (''/account/'' @ name) [] exc] \<and>
         filter is_log evs = [] \<and>
         (case fst (func w) of
            Inl e \<Rightarrow> fst (wrapped w) = Inl (OpenBBError (Cause e)) \<and>
                     exc = Some (OpenBBError (Cause e))
          | Inr v \<Rightarrow> fst (wrapped w) = Inr v \<and> exc = None)"
proof -
  consider "name = ''login''" "func = login_func c email password pat remember_me return_settings"
      "wrapped = log_account_command ''login'' func"
    | "name = ''save''" "func = save_func c return_settings" "wrapped = log_account_command ''save'' func"
    | "name = ''refresh''" "func = refresh_func c return_settings" "wrapped = log_account_command ''refresh'' func"
    | "name = ''logout''" "func = logout_func c return_settings" "wrapped = log_account_command ''logout'' func"
    using assms by (auto simp: login_def save_def refresh_def logout_def)
  then show ?thesis
  proof cases
    case 1
    show ?thesis
      unfolding 1 by (rule log_account_command_audit) (rule login_func_trace)
  next
    case 2
    show ?thesis
      unfolding 2 by (rule log_account_command_audit) (rule save_func_trace)
  next
    case 3
    show ?thesis
      unfolding 3 by (rule log_account_command_audit) (rule refresh_func_trace)
  next
    case 4
    show ?thesis
      unfolding 4 by (rule log_account_command_audit) (rule logout_func_trace)
  qed
qed

theorem account_operation_audit_witness:
  "(''login'', login_func example_collab None None (Some ''expired'') True False,
      login example_collab None None (Some ''expired'') True False) \<in>
     {(''login'', login_func example_collab None None (Some ''expired'') True False,
         login example_collab None None (Some ''expired'') True False),
      (''save'', save_func example_collab False, save example_collab False),
      (''refresh'', refresh_func example_collab False, refresh example_collab False),
      (''logout'', logout_func example_collab False, logout example_collab False)} \<and>
   fst (login_func example_collab None None (Some ''expired'') True False
          (example_world (example_settings ''X'' None) (Directory None))) =
     Inl (Other ''HTTPException'') \<and>
   (\<exists>evs exc.
      trace (snd (login example_collab None None (Some ''expired'') True False
                   (example_world (example_settings ''X'' None) (Directory None)))) =
        trace (example_world (example_settings ''X'' None) (Directory None)) @ evs @
        [Log (user_settings (snd (login example_collab None None (Some ''expired'') True False
                (example_world (example_settings ''X'' None) (Directory None)))))
           (''/account/'' @ ''login'') [] exc] \<and>
      filter is_log evs = [] \<and>
      fst (login example_collab None None (Some ''expired'') True False
             (example_world (example_settings ''X'' None) (Directory None))) =
        Inl (OpenBBError (Cause (Other ''HTTPException''))) \<and>
      exc = Some (OpenBBError (Cause (Other ''HTTPException''))))"
proof -
  let ?w = "example_world (example_settings ''X'' None) (Directory None)"
  have h: "(''login'', login_func example_collab None None (Some ''expired'') True False,
      login example_collab None None (Some ''expired'') True False) \<in>
     {(''login'', login_func example_collab None None (Some ''expired'') True False,
         login example_collab None None (Some ''expired'') True False),
      (''save'', save_func example_collab False, save example_collab False),
      (''refresh'', refresh_func example_collab False, refresh example_collab False),
      (''logout'', logout_func example_collab False, logout example_collab False)}"
    by (rule insertI1)
  have f: "fst (login_func example_collab None None (Some ''expired'') True False ?w) =
     Inl (Other ''HTTPException'')"
    by (simp add: login_func_def create_hub_service_def example_defs emit_def Let_def)
  show ?thesis
    using h f account_operation_audit [OF h, of ?w] by simp
qed

subsection \<open>Identity on refresh and on login\<close>

text \<open>
  C1. In a Connected state whose current settings have the id \<open>X\<close>, when the pull
  of \<open>refresh\<close> returns settings with the id \<open>Y\<close> and \<open>update_default\<close> turns them
  into \<open>updated\<close>, the settings installed by \<open>refresh\<close> are \<open>updated\<close> with the id
  set to \<open>X\<close>: the id is the one held before, and the profile, the credentials and the
  preferences are those computed from the pulled settings.
\<close>

theorem refresh_preserves_identity:
  assumes "hub_session (profile (user_settings w)) = Some h"
    and "id' (user_settings w) = X"
    and "hub_pull c (Some h) = Inr incoming"
    and "id' incoming = Y"
    and "update_default c (store w) incoming = Inr updated"
  shows "fst (refresh c return_settings w) =
           Inr (if return_settings then Some (updated\<lparr>id' := X\<rparr>) else None) \<and>
         user_settings (snd (refresh c return_settings w)) = updated\<lparr>id' := X\<rparr> \<and>
         id' (user_settings (snd (refresh c return_settings w))) = X \<and>
         profile (user_settings (snd (refresh c return_settings w))) = profile updated \<and>
         credentials (user_settings (snd (refresh c return_settings w))) = credentials updated \<and>
         preferences (user_settings (snd (refresh c return_settings w))) = preferences updated"
  using assms
  by (simp add: refresh_def refresh_func_def step_defs Let_def)

theorem refresh_preserves_identity_witness:
  "hub_session (profile (user_settings (example_world (example_settings ''X'' (Some ''T'')) (Directory None)))) = Some ''T'' \<and>
   id' (user_settings (example_world (example_settings ''X'' (Some ''T'')) (Directory None))) = ''X'' \<and>
   hub_pull example_collab (Some ''T'') = Inr (example_settings ''Y'' (Some ''T'')) \<and>
   id' (example_settings ''Y'' (Some ''T'')) = ''Y'' \<and>
   update_default example_collab
     (store (example_world (example_settings ''X'' (Some ''T'')) (Directory None)))
     (example_settings ''Y'' (Some ''T'')) = Inr (example_settings ''Y'' (Some ''T'')) \<and>
   user_settings (snd (refresh example_collab True
     (example_world (example_settings ''X'' (Some ''T'')) (Directory None)))) =
     example_settings ''X'' (Some ''T'') \<and>
   ''X'' \<noteq> ''Y''"
proof -
  let ?w = "example_world (example_settings ''X'' (Some ''T'')) (Directory None)"
  have h1: "hub_session (profile (user_settings ?w)) = Some ''T''"
    and h2: "id' (user_settings ?w) = ''X''"
    and h3: "hub_pull example_collab (Some ''T'') = Inr (example_settings ''Y'' (Some ''T''))"
    and h4: "id' (example_settings ''Y'' (Some ''T'')) = ''Y''"
    and h5: "update_default example_collab (store ?w) (example_settings ''Y'' (Some ''T'')) =
               Inr (example_settings ''Y'' (Some ''T''))"
    by (simp_all add: example_defs)
  show ?thesis
    using h1 h2 h3 h4 h5 refresh_preserves_identity [OF h1 h2 h3 h4 h5, of True]
    by (simp add: example_settings_def)
qed

text \<open>
  C5, as the code has it. When the client of \<open>login\<close> is created and its pull
  returns settings with the id \<open>Y\<close>, which \<open>update_default\<close> turns into \<open>updated\<close>,
  the settings installed by \<open>login\<close> are \<open>updated\<close>, whatever settings were current
  before the call: \<open>login\<close> never puts the previous id back. The installed id is the
  one \<open>update_default\<close> gives, and it is \<open>Y\<close> exactly when \<open>update_default\<close> keeps
  the id of the pulled settings. This holds for every login that gets as far as the
  install, so for every successful one.
\<close>

theorem login_remote_identity:
  assumes "create_hub_service c email password pat w = (Inr hs, w1)"
    and "hub_pull c hs = Inr incoming"
    and "id' incoming = Y"
    and "update_default c (store w) incoming = Inr updated"
  shows "user_settings (snd (login c email password pat remember_me return_settings w)) = updated \<and>
         id' (user_settings (snd (login c email password pat remember_me return_settings w))) =
           id' updated \<and>
         user_settings (snd (login c email password pat remember_me return_settings
           (w\<lparr>user_settings := previous\<rparr>))) = updated \<and>
         (id' updated = id' incoming \<longleftrightarrow>
            id' (user_settings (snd (login c email password pat remember_me return_settings w))) = Y)"
proof -
  have a: "user_settings (snd (login c email password pat remember_me return_settings w)) = updated"
    using assms(1,2,4) by (rule login_installs)
  have c1: "create_hub_service c email password pat (w\<lparr>user_settings := previous\<rparr>) =
      (Inr hs, w1\<lparr>user_settings := previous\<rparr>)"
    using assms(1) by (simp add: create_hub_service_settings_free)
  have c2: "update_default c (store (w\<lparr>user_settings := previous\<rparr>)) incoming = Inr updated"
    using assms(4) by simp
  have b: "user_settings (snd (login c email password pat remember_me return_settings
           (w\<lparr>user_settings := previous\<rparr>))) = updated"
    by (rule login_installs [OF c1 assms(2) c2])
  from a b assms(3) show ?thesis by auto
qed

theorem login_remote_identity_witness:
  "create_hub_service example_collab None None (Some ''T'')
     (example_world (example_settings ''X'' None) (Directory None)) =
     (Inr (Some ''T''),
      (example_world (example_settings ''X'' None) (Directory None))
        \<lparr>trace := [HubService_init None, Hub_connect None None (Some ''T'')]\<rparr>) \<and>
   hub_pull example_collab (Some ''T'') = Inr (example_settings ''Y'' (Some ''T'')) \<and>
   id' (example_settings ''Y'' (Some ''T'')) = ''Y'' \<and>
   update_default example_collab
     (store (example_world (example_settings ''X'' None) (Directory None)))
     (example_settings ''Y'' (Some ''T'')) = Inr (example_settings ''Y'' (Some ''T'')) \<and>
   user_settings (snd (login example_collab None None (Some ''T'') False False
     (example_world (example_settings ''X'' None) (Directory None)))) =
     example_settings ''Y'' (Some ''T'') \<and>
   id' (user_settings (snd (login example_collab None None (Some ''T'') False False
     (example_world (example_settings ''X'' None) (Directory None))))) = ''Y'' \<and>
   id' (user_settings (example_world (example_settings ''X'' None) (Directory None))) = ''X''"
proof -
  let ?w = "example_world (example_settings ''X'' None) (Directory None)"
  have h1: "create_hub_service example_collab None None (Some ''T'') ?w =
     (Inr (Some ''T''), ?w\<lparr>trace := [HubService_init None, Hub_connect None None (Some ''T'')]\<rparr>)"
    by (simp add: create_hub_service_def example_defs emit_def Let_def)
  have h2: "hub_pull example_collab (Some ''T'') = Inr (example_settings ''Y'' (Some ''T''))"
    and h3: "id' (example_settings ''Y'' (Some ''T'')) = ''Y''"
    and h4: "update_default example_collab (store ?w) (example_settings ''Y'' (Some ''T'')) =
               Inr (example_settings ''Y'' (Some ''T''))"
    by (simp_all add: example_defs)
  show ?thesis
    using h1 h2 h3 h4 login_remote_identity [OF h1 h2 h3 h4, of False False]
    by (simp add: example_defs)
qed

text \<open>
  C5, as stated, fails: \<open>login\<close> does not install the pulled settings but what
  \<open>update_default\<close> makes of them. With an \<open>update_default\<close> that issues a new id, a
  successful login whose pull returned the id \<open>Y\<close> installs settings with another id.
\<close>

theorem login_identity_from_update_default:
  "hub_pull reissuing_collab (Some ''T'') = Inr (example_settings ''Y'' (Some ''T'')) \<and>
   id' (example_settings ''Y'' (Some ''T'')) = ''Y'' \<and>
   fst (login reissuing_collab None None (Some ''T'') False True
     (example_world (example_settings ''X'' None) (Directory None))) =
     Inr (Some ((example_settings ''Y'' (Some ''T''))\<lparr>id' := ''fresh''\<rparr>)) \<and>
   id' (user_settings (snd (login reissuing_collab None None (Some ''T'') False True
     (example_world (example_settings ''X'' None) (Directory None))))) = ''fresh'' \<and>
   ''fresh'' \<noteq> ''Y''"
  by (simp add: login_def login_func_def create_hub_service_def step_defs example_defs
      reissuing_collab_def Let_def)

subsection \<open>Save and refresh without a session\<close>

text \<open>
  C7. In an Anonymous state (the current settings hold no hub session) the only event
  of \<open>save\<close> and of \<open>refresh\<close> is the log record: no hub client is created and
  nothing is called on one. When \<open>write_default_user_settings\<close> returns, \<open>save\<close> has
  handed it the current settings, the store is what it returned and the current
  settings are unchanged; when \<open>read_default_user_settings\<close> returns \<open>d\<close>,
  \<open>refresh\<close> has installed \<open>d\<close> as the current settings.
\<close>

theorem anonymous_save_refresh_local:
  assumes "hub_session (profile (user_settings w)) = None"
  shows "(\<exists>settings exc. trace (snd (save c return_settings w)) =
            trace w @ [Log settings ''/account/save'' [] exc]) \<and>
         (\<exists>settings exc. trace (snd (refresh c return_settings w)) =
            trace w @ [Log settings ''/account/refresh'' [] exc]) \<and>
         filter is_remote (trace (snd (save c return_settings w))) = filter is_remote (trace w) \<and>
         filter is_remote (trace (snd (refresh c return_settings w))) = filter is_remote (trace w) \<and>
         (\<forall>st. write_default_user_settings c (user_settings w) (store w) = Inr st \<longrightarrow>
            fst (save c return_settings w) =
              Inr (if return_settings then Some (user_settings w) else None) \<and>
            store (snd (save c return_settings w)) = st \<and>
            user_settings (snd (save c return_settings w)) = user_settings w) \<and>
         (\<forall>d. read_default_user_settings c (store w) = Inr d \<longrightarrow>
            fst (refresh c return_settings w) = Inr (if return_settings then Some d else None) \<and>
            user_settings (snd (refresh c return_settings w)) = d \<and>
            store (snd (refresh c return_settings w)) = store w)"
  using assms
  by (auto simp: save_def save_func_def refresh_def refresh_func_def step_defs Let_def
      split: sum.splits)

theorem anonymous_save_refresh_local_witness:
  "hub_session (profile (user_settings
      (example_world (example_settings ''X'' None) (Directory None)))) = None \<and>
   trace (snd (save example_collab True
      (example_world (example_settings ''X'' None) (Directory None)))) =
     [Log (example_settings ''X'' None) ''/account/save'' [] None] \<and>
   store (snd (save example_collab True
      (example_world (example_settings ''X'' None) (Directory None)))) =
     example_settings ''X'' None \<and>
   trace (snd (refresh example_collab True
      (example_world (example_settings ''X'' None) (Directory None)))) =
     [Log (example_settings ''D'' None) ''/account/refresh'' [] None] \<and>
   user_settings (snd (refresh example_collab True
      (example_world (example_settings ''X'' None) (Directory None)))) =
     example_settings ''D'' None"
proof -
  let ?w = "example_world (example_settings ''X'' None) (Directory None)"
  have h: "hub_session (profile (user_settings ?w)) = None"
    by (simp add: example_defs)
  have w: "write_default_user_settings example_collab (user_settings ?w) (store ?w) =
             Inr (example_settings ''X'' None)"
    and r: "read_default_user_settings example_collab (store ?w) = Inr (example_settings ''D'' None)"
    by (simp_all add: example_defs)
  have t: "trace ?w = []" and u: "user_settings ?w = example_settings ''X'' None"
    by (simp_all add: example_defs)
  from anonymous_save_refresh_local [OF h, of example_collab True]
  have a: "\<exists>settings exc. trace (snd (save example_collab True ?w)) =
            trace ?w @ [Log settings ''/account/save'' [] exc]"
    and b: "store (snd (save example_collab True ?w)) = example_settings ''X'' None"
    and c: "user_settings (snd (refresh example_collab True ?w)) = example_settings ''D'' None"
    using w r by blast+
  have "trace (snd (save example_collab True ?w)) =
     [Log (example_settings ''X'' None) ''/account/save'' [] None]"
    using a by (simp add: save_def save_func_def step_defs example_defs)
  moreover have "trace (snd (refresh example_collab True ?w)) =
     [Log (example_settings ''D'' None) ''/account/refresh'' [] None]"
    using c by (simp add: refresh_def refresh_func_def step_defs example_defs)
  ultimately show ?thesis using h b c by simp
qed

subsection \<open>The settings are replaced whole or not at all\<close>

text \<open>
  C9. After \<open>login\<close>, either the call has failed and the current settings are the
  ones held before, or the client was created, its pull returned, \<open>update_default\<close>
  returned \<open>updated\<close>, and the current settings are \<open>updated\<close>. After \<open>refresh\<close> in
  a Connected state, either the call has failed and the current settings are the ones
  held before, or the pull and \<open>update_default\<close> returned and the current settings are
  \<open>updated\<close> with the id held before. So a failure of \<open>connect\<close>, of the reading of
  the session file, of \<open>pull\<close> or of \<open>update_default\<close> leaves the settings untouched,
  and nothing else than the old or the fully reconciled settings is ever current.
\<close>

theorem settings_commit_all_or_nothing:
  "((\<exists>e. fst (login c email password pat remember_me return_settings w) = Inl e) \<and>
      user_settings (snd (login c email password pat remember_me return_settings w)) =
        user_settings w
    \<or> (\<exists>hs w1 incoming updated.
          create_hub_service c email password pat w = (Inr hs, w1) \<and>
          hub_pull c hs = Inr incoming \<and>
          update_default c (store w) incoming = Inr updated \<and>
          user_settings (snd (login c email password pat remember_me return_settings w)) =
            updated)) \<and>
   (\<forall>h. hub_session (profile (user_settings w)) = Some h \<longrightarrow>
      (\<exists>e. fst (refresh c return_settings w) = Inl e) \<and>
        user_settings (snd (refresh c return_settings w)) = user_settings w
      \<or> (\<exists>incoming updated.
            hub_pull c (Some h) = Inr incoming \<and>
            update_default c (store w) incoming = Inr updated \<and>
            user_settings (snd (refresh c return_settings w)) =
              updated\<lparr>id' := id' (user_settings w)\<rparr>))"
proof (intro conjI allI impI)
  let ?L = "login_func c email password pat remember_me return_settings w"
  obtain r w1 where cr: "create_hub_service c email password pat w = (r, w1)"
    by (cases "create_hub_service c email password pat w")
  have fr: "user_settings w1 = user_settings w" "store w1 = store w"
    using create_hub_service_frame [of c email password pat w] cr by simp_all
  have "(\<exists>e. fst ?L = Inl e) \<and> user_settings (snd ?L) = user_settings w
    \<or> (\<exists>hs w1 incoming updated.
          create_hub_service c email password pat w = (Inr hs, w1) \<and>
          hub_pull c hs = Inr incoming \<and>
          update_default c (store w) incoming = Inr updated \<and>
          user_settings (snd ?L) = updated)"
  proof (cases r)
    case (Inl e)
    with cr fr show ?thesis by (simp add: login_func_def)
  next
    case (Inr hs)
    show ?thesis
    proof (cases "hub_pull c hs")
      case (Inl e)
      with Inr cr fr show ?thesis by (simp add: login_func_def emit_def Let_def)
    next
      case pull: (Inr incoming)
      show ?thesis
      proof (cases "update_default c (store w) incoming")
        case (Inl e)
        with pull Inr cr fr show ?thesis by (simp add: login_func_def emit_def Let_def)
      next
        case upd: (Inr updated)
        have "user_settings (snd ?L) = updated"
          using upd pull Inr cr fr
            write_session_file_settings [of c hs "(emit (Hub_pull hs) w1)\<lparr>user_settings := updated\<rparr>"]
          by (auto simp: login_func_def emit_def Let_def split: prod.splits sum.splits)
        with upd pull Inr cr show ?thesis by simp
      qed
    qed
  qed
  then show "(\<exists>e. fst (login c email password pat remember_me return_settings w) = Inl e) \<and>
      user_settings (snd (login c email password pat remember_me return_settings w)) =
        user_settings w
    \<or> (\<exists>hs w1 incoming updated.
          create_hub_service c email password pat w = (Inr hs, w1) \<and>
          hub_pull c hs = Inr incoming \<and>
          update_default c (store w) incoming = Inr updated \<and>
          user_settings (snd (login c email password pat remember_me return_settings w)) =
            updated)"
    by (auto simp: login_def log_account_command_frame log_account_command_fst split: sum.splits)
next
  fix h
  assume "hub_session (profile (user_settings w)) = Some h"
  then show "(\<exists>e. fst (refresh c return_settings w) = Inl e) \<and>
        user_settings (snd (refresh c return_settings w)) = user_settings w
      \<or> (\<exists>incoming updated.
            hub_pull c (Some h) = Inr incoming \<and>
            update_default c (store w) incoming = Inr updated \<and>
            user_settings (snd (refresh c return_settings w)) =
              updated\<lparr>id' := id' (user_settings w)\<rparr>)"
    by (auto simp: refresh_def refresh_func_def step_defs Let_def split: sum.splits)
qed

theorem settings_commit_all_or_nothing_witness:
  "hub_session (profile (user_settings
      (example_world (example_settings ''X'' (Some ''expired'')) (Directory None)))) =
     Some ''expired'' \<and>
   hub_pull example_collab (Some ''expired'') = Inl (Other ''HTTPException'') \<and>
   user_settings (snd (refresh example_collab False
      (example_world (example_settings ''X'' (Some ''expired'')) (Directory None)))) =
     example_settings ''X'' (Some ''expired'') \<and>
   user_settings (snd (login example_collab None None (Some ''expired'') False False
      (example_world (example_settings ''X'' (Some ''expired'')) (Directory None)))) =
     example_settings ''X'' (Some ''expired'')"
proof -
  let ?w = "example_world (example_settings ''X'' (Some ''expired'')) (Directory None)"
  have h: "hub_session (profile (user_settings ?w)) = Some ''expired''"
    and p: "hub_pull example_collab s = Inr incoming \<Longrightarrow> s \<noteq> Some ''expired''"
    and q: "hub_pull example_collab (Some ''expired'') = Inl (Other ''HTTPException'')"
    and u: "user_settings ?w = example_settings ''X'' (Some ''expired'')" for s incoming
    by (auto simp: example_defs)
  have c: "create_hub_service example_collab None None (Some ''expired'') ?w = (Inr hs, w1) \<Longrightarrow>
      hs = Some ''expired''" for hs w1
    by (auto simp: create_hub_service_def example_defs emit_def Let_def)
  from settings_commit_all_or_nothing [of example_collab None None "Some ''expired''" False False ?w]
  have "user_settings (snd (refresh example_collab False ?w)) = user_settings ?w"
    and "user_settings (snd (login example_collab None None (Some ''expired'') False False ?w)) =
      user_settings ?w"
    using h q c by auto
  with h q u show ?thesis by simp
qed

subsection \<open>Logout\<close>

text \<open>
  C2, as the code has it. In an Anonymous state \<open>logout\<close> fails with the wrapped
  \<open>OpenBBError("Not connected to hub.")\<close>, calls nothing on a hub client and leaves the
  settings and the session file as they are. In a Connected state \<open>logout\<close> resumes a
  client from the session and calls \<open>disconnect\<close>. When \<open>disconnect\<close> raises, the call
  fails with that exception wrapped, and the session file and the settings stay as they
  were. When \<open>disconnect\<close> returns, the session file is absent afterwards, whether it
  existed or not; then, when the default settings cannot be read the call fails and the
  settings stay, and when they are read as \<open>d\<close> the call returns with \<open>d\<close> installed;
  when moreover \<open>d\<close> holds no hub session, a second \<open>logout\<close> in the resulting state
  fails with the wrapped \<open>OpenBBError("Not connected to hub.")\<close>.
\<close>

theorem logout_idempotent:
  fixes c :: "('h, 's) collab" and v w :: "('h, 's) world"
  shows
    "(hub_session (profile (user_settings v)) = None \<longrightarrow>
        fst (logout c return_settings v) =
          Inl (OpenBBError (Cause (OpenBBError (Msg ''Not connected to hub.'')))) \<and>
        user_settings (snd (logout c return_settings v)) = user_settings v \<and>
        fs (snd (logout c return_settings v)) = fs v \<and>
        filter is_remote (trace (snd (logout c return_settings v))) = filter is_remote (trace v)) \<and>
     (hub_session (profile (user_settings w)) = Some h \<longrightarrow>
        (\<exists>rest. trace (snd (logout c return_settings w)) =
           trace w @ [HubService_init (Some h), Hub_disconnect (Some h)] @ rest) \<and>
        (\<forall>e. hub_disconnect c (Some h) = Inl e \<longrightarrow>
           fst (logout c return_settings w) = Inl (OpenBBError (Cause e)) \<and>
           fs (snd (logout c return_settings w)) = fs w \<and>
           user_settings (snd (logout c return_settings w)) = user_settings w) \<and>
        (hub_disconnect c (Some h) = Inr () \<longrightarrow>
           session_file (fs (snd (logout c return_settings w))) = None \<and>
           (\<forall>e. read_default_user_settings c (store w) = Inl e \<longrightarrow>
              fst (logout c return_settings w) = Inl (OpenBBError (Cause e)) \<and>
              user_settings (snd (logout c return_settings w)) = user_settings w) \<and>
           (\<forall>d. read_default_user_settings c (store w) = Inr d \<longrightarrow>
              fst (logout c return_settings w) = Inr (if return_settings then Some d else None) \<and>
              trace (snd (logout c return_settings w)) =
                trace w @ [HubService_init (Some h), Hub_disconnect (Some h), File_exists] @
                  (if session_file (fs w) = None then [] else [File_unlink]) @
                  [Log d ''/account/logout'' [] None] \<and>
              user_settings (snd (logout c return_settings w)) = d \<and>
              (hub_session (profile d) = None \<longrightarrow>
                 fst (logout c again (snd (logout c return_settings w))) =
                   Inl (OpenBBError (Cause (OpenBBError (Msg ''Not connected to hub.''))))))))"
proof (intro conjI impI)
  have anon: "fst (logout c r u) =
      Inl (OpenBBError (Cause (OpenBBError (Msg ''Not connected to hub.''))))"
    if "hub_session (profile (user_settings u)) = None" for u :: "('h, 's) world" and r
    using that by (simp add: logout_def logout_func_def log_account_command_def)
  {
    assume "hub_session (profile (user_settings v)) = None"
    then show "fst (logout c return_settings v) =
          Inl (OpenBBError (Cause (OpenBBError (Msg ''Not connected to hub.''))))"
      and "user_settings (snd (logout c return_settings v)) = user_settings v"
      and "fs (snd (logout c return_settings v)) = fs v"
      and "filter is_remote (trace (snd (logout c return_settings v))) = filter is_remote (trace v)"
      by (simp_all add: logout_def logout_func_def step_defs)
  }
  assume conn: "hub_session (profile (user_settings w)) = Some h"
  then show "\<exists>rest. trace (snd (logout c return_settings w)) =
           trace w @ [HubService_init (Some h), Hub_disconnect (Some h)] @ rest"
    by (simp add: logout_def logout_func_def step_defs Let_def split: option.splits sum.splits)
  from conn show "\<forall>e. hub_disconnect c (Some h) = Inl e \<longrightarrow>
           fst (logout c return_settings w) = Inl (OpenBBError (Cause e)) \<and>
           fs (snd (logout c return_settings w)) = fs w \<and>
           user_settings (snd (logout c return_settings w)) = user_settings w"
    by (simp add: logout_def logout_func_def step_defs Let_def)
  assume disc: "hub_disconnect c (Some h) = Inr ()"
  from conn disc show "session_file (fs (snd (logout c return_settings w))) = None"
    by (simp add: logout_def logout_func_def step_defs Let_def split: option.splits sum.splits)
  from conn disc show "\<forall>e. read_default_user_settings c (store w) = Inl e \<longrightarrow>
              fst (logout c return_settings w) = Inl (OpenBBError (Cause e)) \<and>
              user_settings (snd (logout c return_settings w)) = user_settings w"
    by (simp add: logout_def logout_func_def step_defs Let_def split: option.splits)
  show "\<forall>d. read_default_user_settings c (store w) = Inr d \<longrightarrow>
              fst (logout c return_settings w) = Inr (if return_settings then Some d else None) \<and>
              trace (snd (logout c return_settings w)) =
                trace w @ [HubService_init (Some h), Hub_disconnect (Some h), File_exists] @
                  (if session_file (fs w) = None then [] else [File_unlink]) @
                  [Log d ''/account/logout'' [] None] \<and>
              user_settings (snd (logout c return_settings w)) = d \<and>
              (hub_session (profile d) = None \<longrightarrow>
                 fst (logout c again (snd (logout c return_settings w))) =
                   Inl (OpenBBError (Cause (OpenBBError (Msg ''Not connected to hub.'')))))"
  proof (intro allI impI)
    fix d
    assume rd: "read_default_user_settings c (store w) = Inr d"
    have first: "fst (logout c return_settings w) = Inr (if return_settings then Some d else None)"
      "trace (snd (logout c return_settings w)) =
           trace w @ [HubService_init (Some h), Hub_disconnect (Some h), File_exists] @
             (if session_file (fs w) = None then [] else [File_unlink]) @
             [Log d ''/account/logout'' [] None]"
      "user_settings (snd (logout c return_settings w)) = d"
      using conn disc rd
      by (auto simp: logout_def logout_func_def step_defs Let_def split: option.splits)
    have "fst (logout c again (snd (logout c return_settings w))) =
                   Inl (OpenBBError (Cause (OpenBBError (Msg ''Not connected to hub.''))))"
      if "hub_session (profile d) = None"
      using anon [of "snd (logout c return_settings w)" again] first(3) that by simp
    with first show "fst (logout c return_settings w) = Inr (if return_settings then Some d else None) \<and>
              trace (snd (logout c return_settings w)) =
                trace w @ [HubService_init (Some h), Hub_disconnect (Some h), File_exists] @
                  (if session_file (fs w) = None then [] else [File_unlink]) @
                  [Log d ''/account/logout'' [] None] \<and>
              user_settings (snd (logout c return_settings w)) = d \<and>
              (hub_session (profile d) = None \<longrightarrow>
                 fst (logout c again (snd (logout c return_settings w))) =
                   Inl (OpenBBError (Cause (OpenBBError (Msg ''Not connected to hub.'')))))"
      by blast
  qed
qed

theorem logout_idempotent_witness:
  "hub_session (profile (user_settings
      (example_world (example_settings ''X'' (Some ''T'')) (Directory (Some ''T''))))) = Some ''T'' \<and>
   hub_disconnect example_collab (Some ''T'') = Inr () \<and>
   read_default_user_settings example_collab
     (store (example_world (example_settings ''X'' (Some ''T'')) (Directory (Some ''T'')))) =
     Inr (example_settings ''D'' None) \<and>
   hub_session (profile (example_settings ''D'' None)) = None \<and>
   fst (logout example_collab True
      (example_world (example_settings ''X'' (Some ''T'')) (Directory (Some ''T'')))) =
     Inr (Some (example_settings ''D'' None)) \<and>
   trace (snd (logout example_collab True
      (example_world (example_settings ''X'' (Some ''T'')) (Directory (Some ''T''))))) =
     [HubService_init (Some ''T''), Hub_disconnect (Some ''T''), File_exists, File_unlink,
      Log (example_settings ''D'' None) ''/account/logout'' [] None] \<and>
   session_file (fs (snd (logout example_collab True
      (example_world (example_settings ''X'' (Some ''T'')) (Directory (Some ''T'')))))) = None \<and>
   fst (logout example_collab True (snd (logout example_collab True
      (example_world (example_settings ''X'' (Some ''T'')) (Directory (Some ''T'')))))) =
     Inl (OpenBBError (Cause (OpenBBError (Msg ''Not connected to hub.'')))) \<and>
   hub_session (profile (user_settings
      (example_world (example_settings ''X'' None) (Directory (Some ''T''))))) = None \<and>
   fst (logout example_collab True
      (example_world (example_settings ''X'' None) (Directory (Some ''T'')))) =
     Inl (OpenBBError (Cause (OpenBBError (Msg ''Not connected to hub.''))))"
proof -
  let ?w = "example_world (example_settings ''X'' (Some ''T'')) (Directory (Some ''T''))"
  let ?v = "example_world (example_settings ''X'' None) (Directory (Some ''T''))"
  have h1: "hub_session (profile (user_settings ?w)) = Some ''T''"
    and h2: "hub_disconnect example_collab (Some ''T'') = Inr ()"
    and h3: "read_default_user_settings example_collab (store ?w) = Inr (example_settings ''D'' None)"
    and h4: "hub_session (profile (example_settings ''D'' None)) = None"
    and h5: "hub_session (profile (user_settings ?v)) = None"
    and f: "session_file (fs ?w) = Some ''T''" "trace ?w = []"
    by (simp_all add: example_defs)
  from logout_idempotent [where c = example_collab and v = ?v and w = ?w and h = "''T''"
      and return_settings = True and again = True] h1 h2 h3 h4 h5
  have "fst (logout example_collab True ?w) = Inr (Some (example_settings ''D'' None))"
    and "trace (snd (logout example_collab True ?w)) =
       trace ?w @ [HubService_init (Some ''T''), Hub_disconnect (Some ''T''), File_exists] @
         (if session_file (fs ?w) = None then [] else [File_unlink]) @
         [Log (example_settings ''D'' None) ''/account/logout'' [] None]"
    and "session_file (fs (snd (logout example_collab True ?w))) = None"
    and "fst (logout example_collab True (snd (logout example_collab True ?w))) =
       Inl (OpenBBError (Cause (OpenBBError (Msg ''Not connected to hub.''))))"
    and "fst (logout example_collab True ?v) =
       Inl (OpenBBError (Cause (OpenBBError (Msg ''Not connected to hub.''))))"
    by simp_all
  with h1 h2 h3 h4 h5 f show ?thesis by simp
qed

text \<open>
  C2, as stated, fails. With a hub whose \<open>disconnect\<close> raises, \<open>logout\<close> in a
  Connected state fails, the session file is still there and the state is still
  Connected, and the second \<open>logout\<close> fails in the same way, not with the error of a
  missing connection. And with default settings that carry a session, the first
  \<open>logout\<close> returns and so does the second.
\<close>

theorem logout_needs_disconnect:
  "hub_session (profile (user_settings
      (example_world (example_settings ''X'' (Some ''T'')) (Directory (Some ''T''))))) = Some ''T'' \<and>
   fst (logout unreachable_collab False
      (example_world (example_settings ''X'' (Some ''T'')) (Directory (Some ''T'')))) =
     Inl (OpenBBError (Cause (Other ''HTTPException''))) \<and>
   session_file (fs (snd (logout unreachable_collab False
      (example_world (example_settings ''X'' (Some ''T'')) (Directory (Some ''T'')))))) =
     Some ''T'' \<and>
   user_settings (snd (logout unreachable_collab False
      (example_world (example_settings ''X'' (Some ''T'')) (Directory (Some ''T''))))) =
     example_settings ''X'' (Some ''T'') \<and>
   fst (logout unreachable_collab False (snd (logout unreachable_collab False
      (example_world (example_settings ''X'' (Some ''T'')) (Directory (Some ''T'')))))) =
     Inl (OpenBBError (Cause (Other ''HTTPException''))) \<and>
   Inl (OpenBBError (Cause (Other ''HTTPException''))) \<noteq>
     (Inl (OpenBBError (Cause (OpenBBError (Msg ''Not connected to hub.'')))) ::
        exn + string UserSettings option) \<and>
   fst (logout stale_defaults_collab False
      (example_world (example_settings ''X'' (Some ''T'')) (Directory (Some ''T'')))) = Inr None \<and>
   fst (logout stale_defaults_collab False (snd (logout stale_defaults_collab False
      (example_world (example_settings ''X'' (Some ''T'')) (Directory (Some ''T'')))))) = Inr None"
  by (simp add: logout_def logout_func_def step_defs example_defs unreachable_collab_def
      stale_defaults_collab_def Let_def)

subsection \<open>The stored session: corrupt files and the bypass by credentials\<close>

text \<open>
  C8. When \<open>login\<close> is called without credentials and the session file exists with a
  content that \<open>json.load\<close> rejects, or that it parses into a value from which
  \<open>HubSession\<close> cannot be built, the call fails with the wrapped parser exception
  (\<open>JSONDecodeError\<close>, \<open>TypeError\<close> or \<open>ValidationError\<close>), which is not the error
  of the missing session file; the file was read, and no hub client was created.
\<close>

theorem corrupt_session_not_absence:
  assumes "session_file (fs w) = Some content"
    and "\<forall>session_dict. json_load c content = Some session_dict \<longrightarrow>
           (\<exists>e. HubSession_init c session_dict = Inl e)"
  shows "\<exists>e. e \<in> {Other ''JSONDecodeError'', Other ''TypeError'', Other ''ValidationError''} \<and>
           fst (login c None None None remember_me return_settings w) =
             Inl (OpenBBError (Cause e)) \<and>
           fst (login c None None None remember_me return_settings w) \<noteq>
             Inl (OpenBBError (Cause (OpenBBError (Msg ''Session not found.'')))) \<and>
           trace (snd (login c None None None remember_me return_settings w)) =
             trace w @ [File_exists, File_read,
               Log (user_settings w) ''/account/login'' [] (Some (OpenBBError (Cause e)))]"
proof (cases "json_load c content")
  case None
  with assms(1) show ?thesis
    by (simp add: login_def login_func_def create_hub_service_def step_defs Let_def)
next
  case (Some session_dict)
  with assms(2) obtain e where e: "HubSession_init c session_dict = Inl e" by blast
  then have "e \<in> {Other ''TypeError'', Other ''ValidationError''}"
    by (auto simp: HubSession_init_def split: json.splits option.splits)
  with e Some assms(1) show ?thesis
    by (auto simp: login_def login_func_def create_hub_service_def step_defs Let_def)
qed

theorem corrupt_session_not_absence_witness:
  "session_file (fs (example_world (example_settings ''X'' None) (Directory (Some ''?'')))) =
     Some ''?'' \<and>
   json_load example_collab ''?'' = Some (JObject [(''access_token'', JString ''?'')]) \<and>
   HubSession_init example_collab (JObject [(''access_token'', JString ''?'')]) =
     Inl (Other ''ValidationError'') \<and>
   fst (login example_collab None None None False False
      (example_world (example_settings ''X'' None) (Directory (Some ''?'')))) =
     Inl (OpenBBError (Cause (Other ''ValidationError''))) \<and>
   fst (login example_collab None None None False False
      (example_world (example_settings ''X'' None) (Directory (Some ''?'')))) \<noteq>
     Inl (OpenBBError (Cause (OpenBBError (Msg ''Session not found.''))))"
proof -
  let ?w = "example_world (example_settings ''X'' None) (Directory (Some ''?''))"
  have h1: "session_file (fs ?w) = Some ''?''"
    by (simp add: example_defs)
  have j: "json_load example_collab ''?'' = Some (JObject [(''access_token'', JString ''?'')])"
    and v: "HubSession_init example_collab (JObject [(''access_token'', JString ''?'')]) =
      Inl (Other ''ValidationError'')"
    by (simp_all add: example_defs HubSession_init_def)
  from j v have h2: "\<forall>session_dict. json_load example_collab ''?'' = Some session_dict \<longrightarrow>
      (\<exists>e. HubSession_init example_collab session_dict = Inl e)"
    by simp
  have f: "fst (login example_collab None None None False False ?w) =
     Inl (OpenBBError (Cause (Other ''ValidationError'')))"
    by (simp add: login_def login_func_def create_hub_service_def HubSession_init_def step_defs
        example_defs Let_def)
  show ?thesis
    using h1 j v f corrupt_session_not_absence [OF h1 h2, of False False] by simp
qed

text \<open>
  C10. When at least one of \<open>email\<close>, \<open>password\<close> and \<open>pat\<close> is given,
  \<open>_create_hub_service\<close> creates a client without a session and calls \<open>connect\<close>
  with the three arguments as they are; its result, session or exception, is the one of
  \<open>connect\<close>. So the events of every such \<open>login\<close> begin with the creation of that
  client and the \<open>connect\<close> with the supplied arguments, and no later event tests or
  reads the session file. When \<open>connect\<close> raises, \<open>login\<close> fails with that exception
  wrapped and does nothing more than log; when \<open>connect\<close> returns, the pull is made on
  the client it connected. The error of the missing session file is not raised on this
  path.
\<close>

theorem credentials_bypass_session_file:
  fixes c :: "('h, 's) collab" and w :: "('h, 's) world"
  assumes "email \<noteq> None \<or> password \<noteq> None \<or> pat \<noteq> None"
  shows "create_hub_service c email password pat w =
           (hub_connect c email password pat,
            w\<lparr>trace := trace w @ [HubService_init None, Hub_connect email password pat]\<rparr>) \<and>
         (\<exists>rest. trace (snd (login c email password pat remember_me return_settings w)) =
            trace w @ [HubService_init None, Hub_connect email password pat] @ rest \<and>
            filter is_file_read rest = []) \<and>
         filter is_file_read (trace (snd (login c email password pat remember_me return_settings w))) =
           filter is_file_read (trace w) \<and>
         (\<forall>e. hub_connect c email password pat = Inl e \<longrightarrow>
            fst (login c email password pat remember_me return_settings w) =
              Inl (OpenBBError (Cause e)) \<and>
            trace (snd (login c email password pat remember_me return_settings w)) =
              trace w @ [HubService_init None, Hub_connect email password pat,
                Log (user_settings w) ''/account/login'' [] (Some (OpenBBError (Cause e)))]) \<and>
         (\<forall>session. hub_connect c email password pat = Inr session \<longrightarrow>
            (\<exists>rest. trace (snd (login c email password pat remember_me return_settings w)) =
               trace w @ [HubService_init None, Hub_connect email password pat,
                 Hub_pull session] @ rest))"
proof -
  let ?w2 = "w\<lparr>trace := trace w @ [HubService_init None, Hub_connect email password pat]\<rparr>"
  let ?F = "login_func c email password pat remember_me return_settings w"
  let ?L = "login c email password pat remember_me return_settings w"
  have cr: "create_hub_service c email password pat w = (hub_connect c email password pat, ?w2)"
    using assms by (auto simp: create_hub_service_def emit_def Let_def split: sum.splits)
  have lt: "trace (snd ?L) = trace (snd ?F) @
       [Log (user_settings (snd ?F)) ''/account/login'' []
          (case fst ?F of Inl e \<Rightarrow> Some (OpenBBError (Cause e)) | Inr v \<Rightarrow> None)]"
    using log_account_command_trace [of "''login''"
        "login_func c email password pat remember_me return_settings" w]
    by (simp add: login_def)
  have fail: "fst ?F = Inl e \<and> snd ?F = ?w2" if "hub_connect c email password pat = Inl e" for e
    using that by (simp add: login_func_def cr)
  have ok: "\<exists>rest. trace (snd ?F) =
      trace w @ [HubService_init None, Hub_connect email password pat, Hub_pull session] @ rest \<and>
      filter is_file_read rest = []"
    if s: "hub_connect c email password pat = Inr session" for session
  proof -
    let ?w3 = "\<lambda>u. (emit (Hub_pull session) ?w2)\<lparr>user_settings := u\<rparr>"
    have ws: "\<exists>evs. trace (snd (write_session_file c session (?w3 u))) =
        trace w @ [HubService_init None, Hub_connect email password pat, Hub_pull session] @ evs \<and>
        filter is_file_read evs = []" for u
      using write_session_file_no_read [of c session "?w3 u"] by (simp add: emit_def)
    show ?thesis
    proof (cases "hub_pull c session")
      case (Inl e)
      with s show ?thesis by (simp add: login_func_def cr emit_def Let_def)
    next
      case pull: (Inr incoming)
      show ?thesis
      proof (cases "update_default c (store w) incoming")
        case (Inl e)
        with pull s show ?thesis by (simp add: login_func_def cr emit_def Let_def)
      next
        case upd: (Inr updated)
        show ?thesis
        proof (cases remember_me)
          case False
          with upd pull s show ?thesis by (simp add: login_func_def cr emit_def Let_def)
        next
          case True
          have "trace (snd ?F) = trace (snd (write_session_file c session (?w3 updated)))"
            using True upd pull s
            by (simp add: login_func_def cr emit_def Let_def split: prod.splits sum.splits)
          with ws [of updated] show ?thesis by simp
        qed
      qed
    qed
  qed
  have tr: "\<exists>rest. trace (snd ?L) =
      trace w @ [HubService_init None, Hub_connect email password pat] @ rest \<and>
      filter is_file_read rest = []"
  proof (cases "hub_connect c email password pat")
    case (Inl e)
    from fail [OF this] lt show ?thesis by simp
  next
    case (Inr session)
    from ok [OF this] obtain rest where
      "trace (snd ?F) =
        trace w @ [HubService_init None, Hub_connect email password pat, Hub_pull session] @ rest"
      "filter is_file_read rest = []" by blast
    with lt show ?thesis by simp
  qed
  then have nr: "filter is_file_read (trace (snd ?L)) = filter is_file_read (trace w)"
    by auto
  have a: "\<forall>e. hub_connect c email password pat = Inl e \<longrightarrow>
            fst ?L = Inl (OpenBBError (Cause e)) \<and>
            trace (snd ?L) =
              trace w @ [HubService_init None, Hub_connect email password pat,
                Log (user_settings w) ''/account/login'' [] (Some (OpenBBError (Cause e)))]"
  proof (intro allI impI)
    fix e assume "hub_connect c email password pat = Inl e"
    from fail [OF this] lt
    show "fst ?L = Inl (OpenBBError (Cause e)) \<and>
            trace (snd ?L) =
              trace w @ [HubService_init None, Hub_connect email password pat,
                Log (user_settings w) ''/account/login'' [] (Some (OpenBBError (Cause e)))]"
      by (simp add: login_def log_account_command_fst)
  qed
  have b: "\<forall>session. hub_connect c email password pat = Inr session \<longrightarrow>
            (\<exists>rest. trace (snd ?L) =
               trace w @ [HubService_init None, Hub_connect email password pat,
                 Hub_pull session] @ rest)"
  proof (intro allI impI)
    fix session assume "hub_connect c email password pat = Inr session"
    from ok [OF this] lt
    show "\<exists>rest. trace (snd ?L) =
               trace w @ [HubService_init None, Hub_connect email password pat,
                 Hub_pull session] @ rest"
      by auto
  qed
  from cr tr nr a b show ?thesis by blast
qed

theorem credentials_bypass_session_file_witness:
  "Some ''a@b.c'' \<noteq> (None :: string option) \<and>
   hub_connect example_collab (Some ''a@b.c'') None None =
     Inl (OpenBBError (Msg ''Please provide credentials.'')) \<and>
   create_hub_service example_collab (Some ''a@b.c'') None None
      (example_world (example_settings ''X'' None) (Directory (Some ''T''))) =
     (Inl (OpenBBError (Msg ''Please provide credentials.'')),
      (example_world (example_settings ''X'' None) (Directory (Some ''T'')))
        \<lparr>trace := [HubService_init None, Hub_connect (Some ''a@b.c'') None None]\<rparr>) \<and>
   fst (login example_collab (Some ''a@b.c'') None None True False
      (example_world (example_settings ''X'' None) (Directory (Some ''T'')))) =
     Inl (OpenBBError (Cause (OpenBBError (Msg ''Please provide credentials.'')))) \<and>
   trace (snd (login example_collab (Some ''a@b.c'') None None True False
      (example_world (example_settings ''X'' None) (Directory (Some ''T''))))) =
     [HubService_init None, Hub_connect (Some ''a@b.c'') None None,
      Log (example_settings ''X'' None) ''/account/login'' []
        (Some (OpenBBError (Cause (OpenBBError (Msg ''Please provide credentials.'')))))] \<and>
   filter is_file_read (trace (snd (login example_collab (Some ''a@b.c'') None None True False
      (example_world (example_settings ''X'' None) (Directory (Some ''T'')))))) = []"
proof -
  let ?w = "example_world (example_settings ''X'' None) (Directory (Some ''T''))"
  have h: "Some ''a@b.c'' \<noteq> None \<or> (None :: string option) \<noteq> None \<or> (None :: string option) \<noteq> None"
    by simp
  have k: "hub_connect example_collab (Some ''a@b.c'') None None =
     Inl (OpenBBError (Msg ''Please provide credentials.''))"
    and t: "trace ?w = []" "user_settings ?w = example_settings ''X'' None"
    by (simp_all add: example_defs)
  from credentials_bypass_session_file [OF h, of example_collab ?w True False] k
  have "create_hub_service example_collab (Some ''a@b.c'') None None ?w =
     (Inl (OpenBBError (Msg ''Please provide credentials.'')),
      ?w\<lparr>trace := trace ?w @ [HubService_init None, Hub_connect (Some ''a@b.c'') None None]\<rparr>)"
    and "fst (login example_collab (Some ''a@b.c'') None None True False ?w) =
     Inl (OpenBBError (Cause (OpenBBError (Msg ''Please provide credentials.''))))"
    and "trace (snd (login example_collab (Some ''a@b.c'') None None True False ?w)) =
     trace ?w @ [HubService_init None, Hub_connect (Some ''a@b.c'') None None,
      Log (user_settings ?w) ''/account/login'' []
        (Some (OpenBBError (Cause (OpenBBError (Msg ''Please provide credentials.'')))))]"
    and "filter is_file_read (trace (snd (login example_collab (Some ''a@b.c'') None None True False ?w))) =
     filter is_file_read (trace ?w)"
    by simp_all
  with k t show ?thesis by simp
qed

subsection \<open>Writing the session file\<close>

text \<open>
  C6, as the code has it. When \<open>login\<close> with \<open>remember_me\<close> returns normally,
  the client had a session and the session file holds exactly the serialisation of that
  session, whatever it held before. The write is not atomic: the directory is created
  when it was missing, the file is created or truncated to empty when it is opened, and
  the serialisation is written after that, so the file passes through the empty state.
\<close>

theorem remember_me_write:
  assumes "fst (login c email password pat True return_settings w) = Inr r"
  shows "\<exists>h w1. create_hub_service c email password pat w = (Inr (Some h), w1) \<and>
           fs (snd (login c email password pat True return_settings w)) =
             Directory (Some (json_dump c (model_dump c h))) \<and>
           fs_seen (snd (login c email password pat True return_settings w)) =
             fs_seen w @ (if fs w = No_directory then [Directory None] else []) @
               [Directory (Some []), Directory (Some (json_dump c (model_dump c h)))]"
proof -
  let ?L = "login_func c email password pat True return_settings w"
  from assms have ok: "fst ?L = Inr r"
    by (simp add: login_def log_account_command_fst split: sum.splits)
  obtain res w1 where cr: "create_hub_service c email password pat w = (res, w1)"
    by (cases "create_hub_service c email password pat w")
  have fr: "fs w1 = fs w" "fs_seen w1 = fs_seen w"
    using create_hub_service_frame [of c email password pat w] cr by simp_all
  from ok cr obtain hs incoming updated where
    steps: "res = Inr hs" "hub_pull c hs = Inr incoming"
      "update_default c (store w1) incoming = Inr updated"
    by (auto simp: login_func_def emit_def Let_def split: sum.splits)
  let ?w3 = "(emit (Hub_pull hs) w1)\<lparr>user_settings := updated\<rparr>"
  have L: "snd ?L = snd (write_session_file c hs ?w3)"
      "\<exists>u. fst (write_session_file c hs ?w3) = Inr u"
    using ok cr steps
    by (auto simp: login_func_def emit_def Let_def split: sum.splits prod.splits)
  then obtain u where "fst (write_session_file c hs ?w3) = Inr u" by blast
  from write_session_file_success [OF this] obtain h where
    "hs = Some h"
    "fs (snd ?L) = Directory (Some (json_dump c (model_dump c h)))"
    "fs_seen (snd ?L) = fs_seen w @ (if fs w = No_directory then [Directory None] else []) @
               [Directory (Some []), Directory (Some (json_dump c (model_dump c h)))]"
    using L(1) fr by (auto simp: emit_def)
  with cr steps(1) show ?thesis
    by (auto simp: login_def log_account_command_frame)
qed

theorem remember_me_write_witness:
  "fst (login example_collab None None (Some ''T'') True False
      (example_world (example_settings ''X'' None) No_directory)) = Inr None \<and>
   fs (snd (login example_collab None None (Some ''T'') True False
      (example_world (example_settings ''X'' None) No_directory))) = Directory (Some ''T'') \<and>
   fs_seen (snd (login example_collab None None (Some ''T'') True False
      (example_world (example_settings ''X'' None) No_directory))) =
     [Directory None, Directory (Some []), Directory (Some ''T'')]"
proof -
  let ?w = "example_world (example_settings ''X'' None) No_directory"
  have h: "fst (login example_collab None None (Some ''T'') True False ?w) = Inr None"
    by (simp add: login_def login_func_def create_hub_service_def write_session_file_def
        step_defs example_defs Let_def)
  have c: "create_hub_service example_collab None None (Some ''T'') ?w = (Inr (Some t), w1) \<Longrightarrow>
      t = ''T''" for t w1
    by (auto simp: create_hub_service_def example_defs emit_def Let_def)
  have d: "json_dump example_collab (model_dump example_collab ''T'') = ''T''"
    and e: "fs ?w = No_directory" "fs_seen ?w = []"
    by (simp_all add: example_defs)
  from remember_me_write [OF h] c d e h show ?thesis
    by auto
qed

text \<open>
  C6, as stated, fails. A login with a token and \<open>remember_me\<close>, over a session file
  holding \<open>old\<close>, returns normally, and in between the file was empty, which is neither
  the old content nor the serialised session. And with a client that is left without a
  session by \<open>connect\<close> and still answers the pull, the call fails on the test of the
  session, which comes after the file was opened: the file is left empty.
\<close>

theorem session_file_write_not_atomic:
  "fs (example_world (example_settings ''X'' None) (Directory (Some ''old''))) =
     Directory (Some ''old'') \<and>
   fst (login example_collab None None (Some ''T'') True False
      (example_world (example_settings ''X'' None) (Directory (Some ''old'')))) = Inr None \<and>
   fs_seen (snd (login example_collab None None (Some ''T'') True False
      (example_world (example_settings ''X'' None) (Directory (Some ''old''))))) =
     [Directory (Some []), Directory (Some ''T'')] \<and>
   json_dump example_collab (model_dump example_collab ''T'') = ''T'' \<and>
   Directory (Some []) \<noteq> Directory (Some ''old'') \<and>
   Directory (Some []) \<noteq> Directory (Some ''T'') \<and>
   fst (login sessionless_collab None None (Some ''T'') True False
      (example_world (example_settings ''X'' None) (Directory (Some ''old'')))) =
     Inl (OpenBBError (Cause (OpenBBError (Msg ''Not connected to hub.'')))) \<and>
   fs (snd (login sessionless_collab None None (Some ''T'') True False
      (example_world (example_settings ''X'' None) (Directory (Some ''old''))))) =
     Directory (Some [])"
  by (simp add: login_def login_func_def create_hub_service_def write_session_file_def
      step_defs example_defs sessionless_collab_def Let_def)

end
